theory Spec2Isabelle
  imports Complex_Main
begin

section \<open>Underwriting tool: data model\<close>

text \<open>
  A shallow embedding of \<^verbatim>\<open>underwriting_tool.py\<close>. Python \<^verbatim>\<open>int\<close> is \<^typ>\<open>int\<close>;
  Python \<^verbatim>\<open>float\<close> is modelled by \<^typ>\<open>rat\<close> (exact arithmetic, finite values only):
  the properties below depend on comparisons with constants and on \<^verbatim>\<open>min\<close>/\<^verbatim>\<open>max\<close>
  only, never on how a float operation rounds. A \<^verbatim>\<open>dict\<close> with a fixed set of keys is a
  record; a key that may be absent is an \<^typ>\<open>'a option\<close> field.
\<close>

datatype UnderwritingDecision =
  APPROVED | APPROVED_WITH_CONDITIONS | DECLINED | REFER_TO_MANUAL_REVIEW

datatype RiskLevel = LOW | MEDIUM | HIGH | VERY_HIGH

datatype InsuranceType = AUTO | HOME | LIFE | HEALTH

datatype EmploymentStatus = employed | self_employed | unemployed | retired

datatype ConstructionType = wood | brick | concrete | mixed

record DrivingRecord =
  years_licensed :: int
  accidents_last_5_years :: int
  violations_last_3_years :: int
  dui_history :: bool
  license_suspended :: bool

record ClaimsHistory =
  total_claims :: int
  claims_last_3_years :: int
  total_claimed_amount :: rat
  fraud_indicators :: bool

record PropertyInfo =
  property_age :: int
  construction_type :: ConstructionType
  security_system :: bool
  fire_protection_class :: int
  flood_zone :: bool

record ApplicantData =
  applicant_id :: string
  name :: string
  age :: int
  credit_score :: int
  annual_income :: rat
  employment_status :: EmploymentStatus
  insurance_type :: InsuranceType
  coverage_amount :: rat
  claims_history :: ClaimsHistory
  driving_record :: "DrivingRecord option"
  property_info :: "PropertyInfo option"
  smoker :: "bool option"
  pre_existing_conditions :: "bool option"

text \<open>The value of the enum member, as \<^verbatim>\<open>insurance_type.value\<close> gives it.\<close>

fun InsuranceType_value :: "InsuranceType \<Rightarrow> string" where
  "InsuranceType_value AUTO = ''auto''"
| "InsuranceType_value HOME = ''home''"
| "InsuranceType_value LIFE = ''life''"
| "InsuranceType_value HEALTH = ''health''"

subsection \<open>Strings: \<^verbatim>\<open>lower()\<close> and the \<^verbatim>\<open>in\<close> operator\<close>

text \<open>
  \<^verbatim>\<open>str.lower()\<close> on ASCII text (every risk factor the rule engine produces is ASCII), and
  \<^verbatim>\<open>needle in haystack\<close> on strings: the needle occurs as a contiguous substring.
\<close>

definition char_lower :: "char \<Rightarrow> char" where
  "char_lower c =
     (case map_of (zip ''ABCDEFGHIJKLMNOPQRSTUVWXYZ'' ''abcdefghijklmnopqrstuvwxyz'') c of
        None \<Rightarrow> c
      | Some l \<Rightarrow> l)"

definition lower :: "string \<Rightarrow> string" where
  "lower s = map char_lower s"

fun startswith :: "string \<Rightarrow> string \<Rightarrow> bool" where
  "startswith s [] = True"
| "startswith [] (p # ps) = False"
| "startswith (c # cs) (p # ps) = (c = p \<and> startswith cs ps)"

fun str_in :: "string \<Rightarrow> string \<Rightarrow> bool" where
  "str_in needle [] = (needle = [])"
| "str_in needle (c # cs) = (startswith (c # cs) needle \<or> str_in needle cs)"

subsection \<open>External verification (simulated)\<close>

text \<open>
  The dictionaries returned by \<^verbatim>\<open>ExternalDataAPI\<close>. The key \<^verbatim>\<open>verification_date\<close> (the
  wall clock) is left out. What the simulation leaves open is a parameter: either the
  integer drawn by \<^verbatim>\<open>np.random.randint\<close>, or the message of an exception raised inside
  the \<^verbatim>\<open>try\<close> block.
\<close>

record CreditData =
  cd_status :: string
  cd_verified :: bool
  cd_reported_score :: "int option"
  cd_actual_score :: "int option"
  cd_score_difference :: "int option"
  cd_source :: "string option"
  cd_error :: "string option"
  cd_fallback :: "string option"

record DmvData =
  dmv_status :: string
  dmv_data_available :: bool
  dmv_additional_violations :: "int option"
  dmv_license_status :: "string option"
  dmv_source :: "string option"
  dmv_error :: "string option"

datatype simulation = Drawn int | Raised string

fun verify_credit_score :: "string \<Rightarrow> int \<Rightarrow> simulation \<Rightarrow> CreditData" where
  "verify_credit_score applicant reported_score (Drawn variance) =
     (let actual_score = max 300 (min 850 (reported_score + variance)) in
      \<lparr> cd_status = ''success'',
        cd_verified = True,
        cd_reported_score = Some reported_score,
        cd_actual_score = Some actual_score,
        cd_score_difference = Some \<bar>actual_score - reported_score\<bar>,
        cd_source = Some ''Experian (Simulated)'',
        cd_error = None,
        cd_fallback = None \<rparr>)"
| "verify_credit_score applicant reported_score (Raised e) =
      \<lparr> cd_status = ''error'',
        cd_verified = False,
        cd_reported_score = None,
        cd_actual_score = None,
        cd_score_difference = None,
        cd_source = None,
        cd_error = Some e,
        cd_fallback = Some ''Using self-reported score'' \<rparr>"

text \<open>
  \<^verbatim>\<open>np.random.randint(-20, 20)\<close> draws from the half-open range: \<open>-20\<close> up to \<open>19\<close>.
\<close>

definition credit_variance_range :: "int \<Rightarrow> bool" where
  "credit_variance_range v \<longleftrightarrow> -20 \<le> v \<and> v < 20"

fun fetch_driving_record :: "string \<Rightarrow> simulation \<Rightarrow> DmvData" where
  "fetch_driving_record applicant (Drawn extra) =
      \<lparr> dmv_status = ''success'',
        dmv_data_available = True,
        dmv_additional_violations = Some extra,
        dmv_license_status = Some ''valid'',
        dmv_source = Some ''DMV (Simulated)'',
        dmv_error = None \<rparr>"
| "fetch_driving_record applicant (Raised e) =
      \<lparr> dmv_status = ''error'',
        dmv_data_available = False,
        dmv_additional_violations = None,
        dmv_license_status = None,
        dmv_source = None,
        dmv_error = Some e \<rparr>"

record ExternalData =
  credit_verified :: bool
  driving_verified :: bool
  external_sources :: "string list"
  credit_data :: "CreditData option"
  dmv_data :: "DmvData option"

text \<open>\<^verbatim>\<open>if d.get('source'): sources.append(d['source'])\<close>: present and not empty.\<close>

fun append_source :: "string option \<Rightarrow> string list \<Rightarrow> string list" where
  "append_source None srcs = srcs"
| "append_source (Some s) srcs = (if s = [] then srcs else srcs @ [s])"

definition verify_external_data ::
  "ApplicantData \<Rightarrow> simulation \<Rightarrow> simulation \<Rightarrow> ExternalData" where
  "verify_external_data applicant credit_sim dmv_sim =
     (let e0 = \<lparr> credit_verified = False, driving_verified = False, external_sources = [],
                  credit_data = None, dmv_data = None \<rparr>;
          cd = verify_credit_score (applicant_id applicant) (credit_score applicant) credit_sim;
          e1 = e0 \<lparr> credit_data := Some cd, credit_verified := cd_verified cd,
                    external_sources := append_source (cd_source cd) (external_sources e0) \<rparr>
      in if insurance_type applicant = AUTO
         then (let dd = fetch_driving_record (applicant_id applicant) dmv_sim
               in e1 \<lparr> dmv_data := Some dd, driving_verified := dmv_data_available dd,
                        external_sources := append_source (dmv_source dd) (external_sources e1) \<rparr>)
         else e1)"

section \<open>Rule engine\<close>

text \<open>
  \<^verbatim>\<open>UnderwritingRuleEngine.evaluate_rules\<close> appends to three lists and sets one flag as
  it walks through its rules. The four local variables are a record that each rule
  block takes and returns updated.
\<close>

record rule_vars =
  rules_passed :: "string list"
  rules_failed :: "string list"
  risk_factors :: "string list"
  auto_decline :: bool

record RuleResults = rule_vars +
  total_rules_evaluated :: nat

text \<open>The dictionary a type-specific helper returns.\<close>

record type_rules =
  passed :: "string list"
  failed :: "string list"
  type_risk_factors :: "string list"
  type_auto_decline :: bool

definition verified_credit_score :: "ApplicantData \<Rightarrow> ExternalData \<Rightarrow> int" where
  "verified_credit_score applicant external_data =
     (if credit_verified external_data then
        (case credit_data external_data of
           None \<Rightarrow> credit_score applicant
         | Some cd \<Rightarrow> (case cd_actual_score cd of
                         None \<Rightarrow> credit_score applicant
                       | Some s \<Rightarrow> s))
      else credit_score applicant)"

definition rule1_credit_score :: "int \<Rightarrow> rule_vars \<Rightarrow> rule_vars" where
  "rule1_credit_score cs v =
     (if cs < 550 then
        v \<lparr> rules_failed := rules_failed v @ [''Credit score below minimum threshold (550)''],
            auto_decline := True \<rparr>
      else if cs < 600 then
        v \<lparr> rules_failed := rules_failed v @ [''Credit score in high-risk range (550-600)''],
            risk_factors := risk_factors v @ [''Low credit score''] \<rparr>
      else if cs < 700 then
        v \<lparr> risk_factors := risk_factors v @ [''Below average credit score''] \<rparr>
      else
        v \<lparr> rules_passed := rules_passed v @ [''Credit score acceptable''] \<rparr>)"

definition rule2_fraud :: "ApplicantData \<Rightarrow> rule_vars \<Rightarrow> rule_vars" where
  "rule2_fraud applicant v =
     (if fraud_indicators (claims_history applicant) then
        v \<lparr> rules_failed := rules_failed v @ [''Fraud indicators present in claims history''],
            auto_decline := True \<rparr>
      else v)"

definition rule2_claims :: "ApplicantData \<Rightarrow> rule_vars \<Rightarrow> rule_vars" where
  "rule2_claims applicant v =
     (if claims_last_3_years (claims_history applicant) > 3 then
        v \<lparr> rules_failed := rules_failed v @ [''Excessive claims (>3 in last 3 years)''],
            risk_factors := risk_factors v @ [''High claims frequency''] \<rparr>
      else if claims_last_3_years (claims_history applicant) > 1 then
        v \<lparr> risk_factors := risk_factors v @ [''Multiple recent claims''] \<rparr>
      else
        v \<lparr> rules_passed := rules_passed v @ [''Claims history acceptable''] \<rparr>)"

definition rule3_age :: "ApplicantData \<Rightarrow> rule_vars \<Rightarrow> rule_vars" where
  "rule3_age applicant v =
     (if age applicant < 21 then
        v \<lparr> risk_factors := risk_factors v @ [''Young applicant (under 21)''] \<rparr>
      else if age applicant > 75 then
        v \<lparr> risk_factors := risk_factors v @ [''Senior applicant (over 75)''] \<rparr>
      else
        v \<lparr> rules_passed := rules_passed v @ [''Age within standard range''] \<rparr>)"

definition no_type_rules :: type_rules where
  "no_type_rules = \<lparr> passed = [], failed = [], type_risk_factors = [], type_auto_decline = False \<rparr>"

definition auto_dui :: "DrivingRecord \<Rightarrow> type_rules \<Rightarrow> type_rules" where
  "auto_dui dr t =
     (if dui_history dr then
        t \<lparr> failed := failed t @ [''DUI/DWI history present''],
            type_risk_factors := type_risk_factors t @ [''DUI history''],
            type_auto_decline := True \<rparr>
      else t \<lparr> passed := passed t @ [''No DUI/DWI history''] \<rparr>)"

definition auto_suspension :: "DrivingRecord \<Rightarrow> type_rules \<Rightarrow> type_rules" where
  "auto_suspension dr t =
     (if license_suspended dr then
        t \<lparr> failed := failed t @ [''License suspension history''],
            type_risk_factors := type_risk_factors t @ [''License suspended''] \<rparr>
      else t)"

definition auto_accidents :: "DrivingRecord \<Rightarrow> type_rules \<Rightarrow> type_rules" where
  "auto_accidents dr t =
     (if accidents_last_5_years dr > 3 then
        t \<lparr> failed := failed t @ [''Excessive accidents (>3 in 5 years)''],
            type_risk_factors := type_risk_factors t @ [''High accident rate''] \<rparr>
      else if accidents_last_5_years dr > 1 then
        t \<lparr> type_risk_factors := type_risk_factors t @ [''Multiple accidents''] \<rparr>
      else t \<lparr> passed := passed t @ [''Acceptable accident history''] \<rparr>)"

definition auto_violations :: "DrivingRecord \<Rightarrow> type_rules \<Rightarrow> type_rules" where
  "auto_violations dr t =
     (if violations_last_3_years dr > 5 then
        t \<lparr> failed := failed t @ [''Excessive violations (>5 in 3 years)''],
            type_risk_factors := type_risk_factors t @ [''Multiple traffic violations''] \<rparr>
      else if violations_last_3_years dr > 2 then
        t \<lparr> type_risk_factors := type_risk_factors t @ [''Several traffic violations''] \<rparr>
      else t \<lparr> passed := passed t @ [''Acceptable violation history''] \<rparr>)"

definition auto_experience :: "DrivingRecord \<Rightarrow> type_rules \<Rightarrow> type_rules" where
  "auto_experience dr t =
     (if years_licensed dr < 2 then
        t \<lparr> type_risk_factors := type_risk_factors t @ [''Limited driving experience''] \<rparr>
      else t \<lparr> passed := passed t @ [''Adequate driving experience''] \<rparr>)"

definition evaluate_auto_rules :: "ApplicantData \<Rightarrow> type_rules" where
  "evaluate_auto_rules applicant =
     (case driving_record applicant of
        None \<Rightarrow> no_type_rules
      | Some dr \<Rightarrow>
          auto_experience dr (auto_violations dr (auto_accidents dr
            (auto_suspension dr (auto_dui dr no_type_rules)))))"

definition home_property_age :: "PropertyInfo \<Rightarrow> type_rules \<Rightarrow> type_rules" where
  "home_property_age prop t =
     (if property_age prop > 50 then
        t \<lparr> type_risk_factors := type_risk_factors t @ [''Old property (>50 years)''] \<rparr>
      else t)"

definition home_construction :: "PropertyInfo \<Rightarrow> type_rules \<Rightarrow> type_rules" where
  "home_construction prop t =
     (if construction_type prop = wood then
        t \<lparr> type_risk_factors := type_risk_factors t @ [''Wood construction - fire risk''] \<rparr>
      else t \<lparr> passed := passed t @ [''Durable construction type''] \<rparr>)"

definition home_security :: "PropertyInfo \<Rightarrow> type_rules \<Rightarrow> type_rules" where
  "home_security prop t =
     (if security_system prop then
        t \<lparr> passed := passed t @ [''Security system installed''] \<rparr>
      else t \<lparr> type_risk_factors := type_risk_factors t @ [''No security system''] \<rparr>)"

definition home_fire :: "PropertyInfo \<Rightarrow> type_rules \<Rightarrow> type_rules" where
  "home_fire prop t =
     (if fire_protection_class prop > 7 then
        t \<lparr> failed := failed t @ [''Poor fire protection class (>7)''],
            type_risk_factors := type_risk_factors t @ [''Limited fire protection''] \<rparr>
      else if fire_protection_class prop \<le> 4 then
        t \<lparr> passed := passed t @ [''Excellent fire protection''] \<rparr>
      else t)"

definition home_flood :: "PropertyInfo \<Rightarrow> type_rules \<Rightarrow> type_rules" where
  "home_flood prop t =
     (if flood_zone prop then
        t \<lparr> type_risk_factors := type_risk_factors t @ [''Property in flood zone''] \<rparr>
      else t)"

definition evaluate_home_rules :: "ApplicantData \<Rightarrow> type_rules" where
  "evaluate_home_rules applicant =
     (case property_info applicant of
        None \<Rightarrow> no_type_rules
      | Some prop \<Rightarrow>
          home_flood prop (home_fire prop (home_security prop
            (home_construction prop (home_property_age prop no_type_rules)))))"

text \<open>\<^verbatim>\<open>if applicant.smoker:\<close> on an optional boolean: \<^verbatim>\<open>None\<close> is falsy.\<close>

fun truthy :: "bool option \<Rightarrow> bool" where
  "truthy None = False"
| "truthy (Some b) = b"

definition health_smoker :: "ApplicantData \<Rightarrow> type_rules \<Rightarrow> type_rules" where
  "health_smoker applicant t =
     (if truthy (smoker applicant) then
        t \<lparr> type_risk_factors := type_risk_factors t @ [''Smoker - increased health risk''] \<rparr>
      else t \<lparr> passed := passed t @ [''Non-smoker''] \<rparr>)"

definition health_conditions :: "ApplicantData \<Rightarrow> type_rules \<Rightarrow> type_rules" where
  "health_conditions applicant t =
     (if truthy (pre_existing_conditions applicant) then
        t \<lparr> type_risk_factors := type_risk_factors t @ [''Pre-existing health conditions''] \<rparr>
      else t \<lparr> passed := passed t @ [''No pre-existing conditions''] \<rparr>)"

definition evaluate_health_rules :: "ApplicantData \<Rightarrow> type_rules" where
  "evaluate_health_rules applicant =
     health_conditions applicant (health_smoker applicant no_type_rules)"

text \<open>
  Rule 4 extends the three lists with the helper's lists; only the auto branch looks at the
  helper's \<^verbatim>\<open>auto_decline\<close>.
\<close>

definition extend_with :: "type_rules \<Rightarrow> rule_vars \<Rightarrow> rule_vars" where
  "extend_with t v =
     v \<lparr> rules_passed := rules_passed v @ passed t,
         rules_failed := rules_failed v @ failed t,
         risk_factors := risk_factors v @ type_risk_factors t \<rparr>"

definition rule4_type_specific :: "ApplicantData \<Rightarrow> rule_vars \<Rightarrow> rule_vars" where
  "rule4_type_specific applicant v =
     (case insurance_type applicant of
        AUTO \<Rightarrow>
          (let auto_rules = evaluate_auto_rules applicant; v' = extend_with auto_rules v
           in if type_auto_decline auto_rules then v' \<lparr> auto_decline := True \<rparr> else v')
      | HOME \<Rightarrow> extend_with (evaluate_home_rules applicant) v
      | LIFE \<Rightarrow> extend_with (evaluate_health_rules applicant) v
      | HEALTH \<Rightarrow> extend_with (evaluate_health_rules applicant) v)"

definition rule5_coverage :: "ApplicantData \<Rightarrow> rule_vars \<Rightarrow> rule_vars" where
  "rule5_coverage applicant v =
     (if annual_income applicant > 0 then
        (let coverage_ratio = coverage_amount applicant / annual_income applicant
         in if coverage_ratio > 10 then
              v \<lparr> risk_factors := risk_factors v @ [''Coverage amount very high relative to income''] \<rparr>
            else if coverage_ratio > 5 then
              v \<lparr> risk_factors := risk_factors v @ [''Coverage amount high relative to income''] \<rparr>
            else v)
      else v)"

definition initial_rule_vars :: rule_vars where
  "initial_rule_vars =
     \<lparr> rules_passed = [], rules_failed = [], risk_factors = [], auto_decline = False \<rparr>"

definition evaluate_rules :: "ApplicantData \<Rightarrow> ExternalData \<Rightarrow> RuleResults" where
  "evaluate_rules applicant external_data =
     (let v = rule5_coverage applicant (rule4_type_specific applicant (rule3_age applicant
                (rule2_claims applicant (rule2_fraud applicant
                  (rule1_credit_score (verified_credit_score applicant external_data)
                     initial_rule_vars)))))
      in \<lparr> rules_passed = rules_passed v,
           rules_failed = rules_failed v,
           risk_factors = risk_factors v,
           auto_decline = auto_decline v,
           total_rules_evaluated = length (rules_passed v) + length (rules_failed v) \<rparr>)"

section \<open>Risk calculator\<close>

text \<open>
  The classifier's result dictionary. The classifier itself (a trained decision tree) is
  not modelled: its result is a parameter of everything below, so every statement holds
  for whatever it predicts. \<^verbatim>\<open>prediction\<close> is absent in the dictionary returned when the
  prediction raised.
\<close>

record MLResults =
  ml_available :: bool
  prediction :: "int option"
  confidence :: "rat option"
  ml_error :: "string option"

definition BASE_PREMIUMS :: "InsuranceType \<Rightarrow> rat" where
  "BASE_PREMIUMS t = (case t of AUTO \<Rightarrow> 150 | HOME \<Rightarrow> 120 | LIFE \<Rightarrow> 80 | HEALTH \<Rightarrow> 200)"

text \<open>
  The five components are the local variables of \<^verbatim>\<open>calculate_risk_score\<close>; the record
  holds them as they stand just before they are summed.
\<close>

record components =
  credit_component :: rat
  claims_component :: int
  age_component :: int
  rule_component :: int
  ml_component :: rat

definition risk_components :: "ApplicantData \<Rightarrow> RuleResults \<Rightarrow> MLResults \<Rightarrow> components" where
  "risk_components applicant rule_results ml_results =
     \<lparr> credit_component = max 0 (30 - of_int (credit_score applicant - 300) / 550 * 30),
       claims_component = min 20 (claims_last_3_years (claims_history applicant) * 5),
       age_component =
         (if age applicant < 25 \<or> age applicant > 70 then 10
          else if age applicant < 30 \<or> age applicant > 65 then 5
          else 0),
       rule_component =
         min 25 (int (length (risk_factors rule_results)) * 3
                 + int (length (rules_failed rule_results)) * 5),
       ml_component =
         (if ml_available ml_results then
            (case prediction ml_results of None \<Rightarrow> 0 | Some p \<Rightarrow> of_int p * (15 / 2))
          else 0) \<rparr>"

definition calculate_risk_score :: "ApplicantData \<Rightarrow> RuleResults \<Rightarrow> MLResults \<Rightarrow> rat" where
  "calculate_risk_score applicant rule_results ml_results =
     (let c = risk_components applicant rule_results ml_results;
          risk_score = credit_component c + of_int (claims_component c)
                       + of_int (age_component c) + of_int (rule_component c)
                       + ml_component c
      in min 100 (max 0 risk_score))"

text \<open>
  \<^verbatim>\<open>round(x, 2)\<close>, on exact values: to the nearest hundredth, a tie going to the even
  neighbour.
\<close>

definition round_half_even :: "rat \<Rightarrow> int" where
  "round_half_even y =
     (let f = \<lfloor>y\<rfloor>; d = y - of_int f
      in if d < 1 / 2 then f else if d > 1 / 2 then f + 1 else if even f then f else f + 1)"

definition round2 :: "rat \<Rightarrow> rat" where
  "round2 x = of_int (round_half_even (x * 100)) / 100"

record PremiumInfo =
  base_premium :: rat
  premium_with_risk :: rat
  additional_premium :: rat
  total_monthly_premium :: rat
  total_annual_premium :: rat

text \<open>
  The body of the loop over the risk factors: an \<^verbatim>\<open>if\<close>/\<^verbatim>\<open>elif\<close>/\<^verbatim>\<open>elif\<close> chain, so at
  most one branch adds to the running sum for a given factor.
\<close>

definition surcharge_step :: "rat \<Rightarrow> rat \<Rightarrow> string \<Rightarrow> rat" where
  "surcharge_step base acc factor =
     (if str_in ''DUI'' factor \<or> str_in ''fraud'' (lower factor) then acc + base * (1 / 2)
      else if str_in ''accident'' (lower factor) \<or> str_in ''claims'' (lower factor)
        then acc + base * (1 / 5)
      else if str_in ''credit'' (lower factor) then acc + base * (3 / 20)
      else acc)"

definition surcharge_loop :: "rat \<Rightarrow> string list \<Rightarrow> rat" where
  "surcharge_loop base factors = foldl (surcharge_step base) 0 factors"

definition calculate_premium :: "ApplicantData \<Rightarrow> rat \<Rightarrow> string list \<Rightarrow> PremiumInfo" where
  "calculate_premium applicant risk_score factors =
     (let base = BASE_PREMIUMS (insurance_type applicant);
          risk_multiplier = 1 + (risk_score / 100) * 2;
          with_risk = base * risk_multiplier;
          additional = surcharge_loop base factors;
          total_premium = with_risk + additional
      in \<lparr> base_premium = round2 base,
           premium_with_risk = round2 with_risk,
           additional_premium = round2 additional,
           total_monthly_premium = round2 total_premium,
           total_annual_premium = round2 (total_premium * 12) \<rparr>)"

section \<open>Decision\<close>

record DecisionResult =
  decision :: UnderwritingDecision
  risk_level :: RiskLevel
  risk_score :: rat
  approved :: bool
  decision_reasons :: "string list"
  conditions :: "string list"
  exclusions :: "string list"
  premium_info :: "PremiumInfo option"
  result_credit_verified :: bool
  result_external_sources :: "string list"

definition create_decline_decision ::
  "ApplicantData \<Rightarrow> rat \<Rightarrow> RuleResults \<Rightarrow> DecisionResult" where
  "create_decline_decision applicant score rule_results =
     \<lparr> decision = DECLINED,
       risk_level = VERY_HIGH,
       risk_score = score,
       approved = False,
       decision_reasons = ''Application declined due to:'' # rules_failed rule_results,
       conditions = [],
       exclusions = [],
       premium_info = None,
       result_credit_verified = False,
       result_external_sources = [] \<rparr>"

text \<open>The four independent \<^verbatim>\<open>if\<close>s of the loop in \<^verbatim>\<open>_determine_exclusions\<close>.\<close>

definition exclusions_of_factor :: "string \<Rightarrow> string list" where
  "exclusions_of_factor factor =
     (if str_in ''accident'' (lower factor) then [''Accident forgiveness not available''] else [])
     @ (if str_in ''violation'' (lower factor)
        then [''Traffic violation surcharge waiver not available''] else [])
     @ (if str_in ''flood'' (lower factor)
        then [''Flood damage excluded (separate flood insurance required)''] else [])
     @ (if str_in ''credit'' (lower factor)
        then [''Premium payment plan restrictions may apply''] else [])"

text \<open>
  \<^verbatim>\<open>list(set(exclusions))\<close> removes duplicates and leaves the order to the hash values;
  the model keeps the last occurrence of each.
\<close>

definition determine_exclusions :: "ApplicantData \<Rightarrow> RuleResults \<Rightarrow> string list" where
  "determine_exclusions applicant rule_results =
     remdups (concat (map exclusions_of_factor (risk_factors rule_results)))"

text \<open>\<^verbatim>\<open>str(n)\<close> of a length, for the f-string of the high-risk branch.\<close>

fun str_nat :: "nat \<Rightarrow> string" where
  "str_nat n =
     (if n < 10 then [''0123456789'' ! n] else str_nat (n div 10) @ [''0123456789'' ! (n mod 10)])"

declare str_nat.simps [simp del]

definition classify_risk :: "rat \<Rightarrow> RiskLevel" where
  "classify_risk score =
     (if score < 30 then LOW else if score < 50 then MEDIUM
      else if score < 70 then HIGH else VERY_HIGH)"

definition make_decision ::
  "ApplicantData \<Rightarrow> rat \<Rightarrow> RuleResults \<Rightarrow> MLResults \<Rightarrow> ExternalData \<Rightarrow> DecisionResult" where
  "make_decision applicant score rule_results ml_results external_data =
     (if auto_decline rule_results then create_decline_decision applicant score rule_results
      else
        (let level = classify_risk score;
             premium = calculate_premium applicant score (risk_factors rule_results);
             finish = (\<lambda>d cs es rs p.
               \<lparr> decision = d,
                 risk_level = level,
                 risk_score = score,
                 approved = (d \<in> set [APPROVED, APPROVED_WITH_CONDITIONS]),
                 decision_reasons = rs,
                 conditions = cs,
                 exclusions = es,
                 premium_info = p,
                 result_credit_verified = credit_verified external_data,
                 result_external_sources = external_sources external_data \<rparr>)
         in case level of
              LOW \<Rightarrow>
                finish APPROVED [''Standard policy terms apply''] []
                  [''Low risk profile'', ''Good credit history'', ''Clean claims record'']
                  (Some premium)
            | MEDIUM \<Rightarrow>
                finish APPROVED
                  [''Standard policy terms apply'', ''Annual policy review required''] []
                  ([''Moderate risk profile'', ''Acceptable underwriting criteria met'']
                   @ (if length (risk_factors rule_results) > 0
                      then [''Some risk factors present''] else []))
                  (Some premium)
            | HIGH \<Rightarrow>
                finish APPROVED_WITH_CONDITIONS
                  [''Higher deductible required'', ''Six-month policy review'',
                   ''No coverage for first 30 days'',
                   ''Additional documentation required annually'']
                  (determine_exclusions applicant rule_results)
                  [''High risk profile'',
                   ''Risk factors identified: '' @ str_nat (length (risk_factors rule_results))]
                  (Some premium)
            | VERY_HIGH \<Rightarrow>
                if score > 85 then create_decline_decision applicant score rule_results
                else
                  finish REFER_TO_MANUAL_REVIEW [''Manual underwriting review required''] []
                    [''Very high risk profile'', ''Requires senior underwriter approval'',
                     ''Additional information needed'']
                    None))"

text \<open>
  Steps 1 to 5 of \<^verbatim>\<open>UnderwritingTool._run\<close> on a validated profile: external verification,
  the rule engine, the classifier (its result a parameter), the risk score, the decision.
\<close>

definition underwrite ::
  "ApplicantData \<Rightarrow> simulation \<Rightarrow> simulation \<Rightarrow> MLResults \<Rightarrow> DecisionResult" where
  "underwrite applicant credit_sim dmv_sim ml_results =
     (let external_data = verify_external_data applicant credit_sim dmv_sim;
          rule_results = evaluate_rules applicant external_data;
          score = calculate_risk_score applicant rule_results ml_results
      in make_decision applicant score rule_results ml_results external_data)"

section \<open>Sample applications\<close>

text \<open>
  The three applications of \<^verbatim>\<open>example_usage\<close>, and variations of them that reach the
  remaining branches of the decision.
\<close>

definition good_auto_app :: ApplicantData where
  "good_auto_app =
     \<lparr> applicant_id = ''APP-2025-001'', name = ''John Smith'', age = 35, credit_score = 750,
       annual_income = 75000, employment_status = employed, insurance_type = AUTO,
       coverage_amount = 100000,
       claims_history = \<lparr> total_claims = 1, claims_last_3_years = 0,
                          total_claimed_amount = 5000, fraud_indicators = False \<rparr>,
       driving_record = Some \<lparr> years_licensed = 15, accidents_last_5_years = 0,
                               violations_last_3_years = 1, dui_history = False,
                               license_suspended = False \<rparr>,
       property_info = None, smoker = None, pre_existing_conditions = None \<rparr>"

definition high_risk_auto :: ApplicantData where
  "high_risk_auto =
     \<lparr> applicant_id = ''APP-2025-002'', name = ''Jane Doe'', age = 22, credit_score = 580,
       annual_income = 30000, employment_status = employed, insurance_type = AUTO,
       coverage_amount = 50000,
       claims_history = \<lparr> total_claims = 4, claims_last_3_years = 3,
                          total_claimed_amount = 25000, fraud_indicators = False \<rparr>,
       driving_record = Some \<lparr> years_licensed = 3, accidents_last_5_years = 2,
                               violations_last_3_years = 4, dui_history = False,
                               license_suspended = False \<rparr>,
       property_info = None, smoker = None, pre_existing_conditions = None \<rparr>"

definition health_app :: ApplicantData where
  "health_app =
     \<lparr> applicant_id = ''APP-2025-003'', name = ''Bob Johnson'', age = 45, credit_score = 700,
       annual_income = 85000, employment_status = employed, insurance_type = HEALTH,
       coverage_amount = 500000,
       claims_history = \<lparr> total_claims = 2, claims_last_3_years = 1,
                          total_claimed_amount = 8000, fraud_indicators = False \<rparr>,
       driving_record = None, property_info = None,
       smoker = Some True, pre_existing_conditions = Some False \<rparr>"

definition fraud_app :: ApplicantData where
  "fraud_app =
     good_auto_app \<lparr> claims_history := (claims_history good_auto_app) \<lparr> fraud_indicators := True \<rparr> \<rparr>"

definition worst_auto_app :: ApplicantData where
  "worst_auto_app =
     high_risk_auto \<lparr> age := 20, credit_score := 550,
                      claims_history := (claims_history high_risk_auto) \<lparr> claims_last_3_years := 4 \<rparr> \<rparr>"

definition borderline_app :: ApplicantData where
  "borderline_app = high_risk_auto \<lparr> credit_score := 560 \<rparr>"

definition ml_bucket :: "int \<Rightarrow> MLResults" where
  "ml_bucket p =
     \<lparr> ml_available = True, prediction = Some p, confidence = Some 1, ml_error = None \<rparr>"

definition ml_unavailable :: MLResults where
  "ml_unavailable =
     \<lparr> ml_available = False, prediction = Some 0, confidence = None, ml_error = None \<rparr>"

section \<open>Surcharge categories\<close>

text \<open>
  The conditions of the three branches of the surcharge loop, each on its own: the keyword
  categories a risk factor can match.
\<close>

definition in_dui_fraud :: "string \<Rightarrow> bool" where
  "in_dui_fraud factor \<longleftrightarrow> str_in ''DUI'' factor \<or> str_in ''fraud'' (lower factor)"

definition in_accident_claims :: "string \<Rightarrow> bool" where
  "in_accident_claims factor \<longleftrightarrow>
     str_in ''accident'' (lower factor) \<or> str_in ''claims'' (lower factor)"

definition in_credit :: "string \<Rightarrow> bool" where
  "in_credit factor \<longleftrightarrow> str_in ''credit'' (lower factor)"

definition categories_matched :: "string \<Rightarrow> nat" where
  "categories_matched factor =
     length (filter id [in_dui_fraud factor, in_accident_claims factor, in_credit factor])"

text \<open>
  What the specification's design note describes, written from its words: a factor
  that matches several categories is charged the surcharge of each of them.
\<close>

definition double_counted_surcharge :: "rat \<Rightarrow> string \<Rightarrow> rat" where
  "double_counted_surcharge base factor =
     (if in_dui_fraud factor then base * (1 / 2) else 0)
     + (if in_accident_claims factor then base * (1 / 5) else 0)
     + (if in_credit factor then base * (3 / 20) else 0)"

text \<open>A risk factor mentioning both credit and claims, the case the design note names.\<close>

definition credit_and_claims :: string where
  "credit_and_claims = ''Poor credit and frequent claims''"

section \<open>Validation of the raw record\<close>

text \<open>
  \<^verbatim>\<open>ApplicantData(**applicant_data_dict)\<close> runs in two phases. First every field of the
  model is validated against its declaration, and the errors of all fields are collected
  into one \<^verbatim>\<open>ValidationError\<close>. Only when no field failed is the model built and
  handed to the \<^verbatim>\<open>mode='after'\<close> validator, whose \<^verbatim>\<open>ValueError\<close> becomes the single error
  of the \<^verbatim>\<open>ValidationError\<close> raised then.

  A key of the raw record is absent (for an optional field also: \<^verbatim>\<open>null\<close>), or holds a
  value that is not of the field's type, or holds a value of that type. What counts as a
  value of the type (the coercions of the library) is not modelled.
\<close>

datatype 'a raw = Missing | Invalid | Given 'a

record RawClaimsHistory =
  raw_total_claims :: "int raw"
  raw_claims_last_3_years :: "int raw"
  raw_total_claimed_amount :: "rat raw"
  raw_fraud_indicators :: "bool raw"

record RawDrivingRecord =
  raw_years_licensed :: "int raw"
  raw_accidents_last_5_years :: "int raw"
  raw_violations_last_3_years :: "int raw"
  raw_dui_history :: "bool raw"
  raw_license_suspended :: "bool raw"

record RawPropertyInfo =
  raw_property_age :: "int raw"
  raw_construction_type :: "ConstructionType raw"
  raw_security_system :: "bool raw"
  raw_fire_protection_class :: "int raw"
  raw_flood_zone :: "bool raw"

record RawApplicantData =
  raw_applicant_id :: "string raw"
  raw_name :: "string raw"
  raw_age :: "int raw"
  raw_credit_score :: "int raw"
  raw_annual_income :: "rat raw"
  raw_employment_status :: "EmploymentStatus raw"
  raw_insurance_type :: "InsuranceType raw"
  raw_coverage_amount :: "rat raw"
  raw_claims_history :: "RawClaimsHistory raw"
  raw_driving_record :: "RawDrivingRecord raw"
  raw_property_info :: "RawPropertyInfo raw"
  raw_smoker :: "bool raw"
  raw_pre_existing_conditions :: "bool raw"

text \<open>One error of a \<^verbatim>\<open>ValidationError\<close>: its kind, and the path of the field.\<close>

datatype violation =
  Field_required "string list"
| Type_error "string list"
| Greater_than_equal "string list" int
| Less_than_equal "string list" int
| String_too_short "string list" nat
| Value_error string

type_synonym 'a validated = "violation list + 'a"

fun int_field :: "string list \<Rightarrow> int \<Rightarrow> int option \<Rightarrow> int raw \<Rightarrow> int validated" where
  "int_field loc ge le Missing = Inl [Field_required loc]"
| "int_field loc ge le Invalid = Inl [Type_error loc]"
| "int_field loc ge le (Given n) =
     (if n < ge then Inl [Greater_than_equal loc ge]
      else case le of
             None \<Rightarrow> Inr n
           | Some hi \<Rightarrow> if hi < n then Inl [Less_than_equal loc hi] else Inr n)"

fun float_field :: "string list \<Rightarrow> int \<Rightarrow> rat raw \<Rightarrow> rat validated" where
  "float_field loc ge Missing = Inl [Field_required loc]"
| "float_field loc ge Invalid = Inl [Type_error loc]"
| "float_field loc ge (Given x) =
     (if x < of_int ge then Inl [Greater_than_equal loc ge] else Inr x)"

fun str_field :: "string list \<Rightarrow> nat \<Rightarrow> string raw \<Rightarrow> string validated" where
  "str_field loc min_length Missing = Inl [Field_required loc]"
| "str_field loc min_length Invalid = Inl [Type_error loc]"
| "str_field loc min_length (Given s) =
     (if length s < min_length then Inl [String_too_short loc min_length] else Inr s)"

text \<open>A required field with no constraint beyond its type (an enum, a \<^verbatim>\<open>Literal\<close>).\<close>

fun required_field :: "string list \<Rightarrow> 'a raw \<Rightarrow> 'a validated" where
  "required_field loc Missing = Inl [Field_required loc]"
| "required_field loc Invalid = Inl [Type_error loc]"
| "required_field loc (Given v) = Inr v"

text \<open>A field with a default, and an \<^verbatim>\<open>Optional\<close> field whose default is \<^verbatim>\<open>None\<close>.\<close>

fun default_field :: "string list \<Rightarrow> 'a \<Rightarrow> 'a raw \<Rightarrow> 'a validated" where
  "default_field loc d Missing = Inr d"
| "default_field loc d Invalid = Inl [Type_error loc]"
| "default_field loc d (Given v) = Inr v"

fun optional_field :: "string list \<Rightarrow> 'a raw \<Rightarrow> 'a option validated" where
  "optional_field loc Missing = Inr None"
| "optional_field loc Invalid = Inl [Type_error loc]"
| "optional_field loc (Given v) = Inr (Some v)"

text \<open>A field holding a nested model, required or optional.\<close>

fun required_model ::
  "string list \<Rightarrow> (string list \<Rightarrow> 'r \<Rightarrow> 'a validated) \<Rightarrow> 'r raw \<Rightarrow> 'a validated" where
  "required_model loc validate Missing = Inl [Field_required loc]"
| "required_model loc validate Invalid = Inl [Type_error loc]"
| "required_model loc validate (Given r) = validate loc r"

fun optional_model ::
  "string list \<Rightarrow> (string list \<Rightarrow> 'r \<Rightarrow> 'a validated) \<Rightarrow> 'r raw \<Rightarrow> 'a option validated" where
  "optional_model loc validate Missing = Inr None"
| "optional_model loc validate Invalid = Inl [Type_error loc]"
| "optional_model loc validate (Given r) =
     (case validate loc r of Inl es \<Rightarrow> Inl es | Inr v \<Rightarrow> Inr (Some v))"

text \<open>
  Collecting: the model is built from the values of its fields when every field is valid;
  otherwise the errors of all failing fields are put together, in the order of the fields.
\<close>

fun collect :: "('a \<Rightarrow> 'b) validated \<Rightarrow> 'a validated \<Rightarrow> 'b validated" where
  "collect (Inr f) (Inr v) = Inr (f v)"
| "collect (Inr f) (Inl es) = Inl es"
| "collect (Inl fs) (Inr v) = Inl fs"
| "collect (Inl fs) (Inl es) = Inl (fs @ es)"

definition ClaimsHistory_validate :: "string list \<Rightarrow> RawClaimsHistory \<Rightarrow> ClaimsHistory validated" where
  "ClaimsHistory_validate loc r =
     collect (collect (collect (collect
       (Inr (\<lambda>a b c d. \<lparr> total_claims = a, claims_last_3_years = b,
                          total_claimed_amount = c, fraud_indicators = d \<rparr>))
       (int_field (loc @ [''total_claims'']) 0 None (raw_total_claims r)))
       (int_field (loc @ [''claims_last_3_years'']) 0 None (raw_claims_last_3_years r)))
       (float_field (loc @ [''total_claimed_amount'']) 0 (raw_total_claimed_amount r)))
       (default_field (loc @ [''fraud_indicators'']) False (raw_fraud_indicators r))"

definition DrivingRecord_validate :: "string list \<Rightarrow> RawDrivingRecord \<Rightarrow> DrivingRecord validated" where
  "DrivingRecord_validate loc r =
     collect (collect (collect (collect (collect
       (Inr (\<lambda>a b c d e. \<lparr> years_licensed = a, accidents_last_5_years = b,
                            violations_last_3_years = c, dui_history = d,
                            license_suspended = e \<rparr>))
       (int_field (loc @ [''years_licensed'']) 0 None (raw_years_licensed r)))
       (int_field (loc @ [''accidents_last_5_years'']) 0 None (raw_accidents_last_5_years r)))
       (int_field (loc @ [''violations_last_3_years'']) 0 None (raw_violations_last_3_years r)))
       (default_field (loc @ [''dui_history'']) False (raw_dui_history r)))
       (default_field (loc @ [''license_suspended'']) False (raw_license_suspended r))"

definition PropertyInfo_validate :: "string list \<Rightarrow> RawPropertyInfo \<Rightarrow> PropertyInfo validated" where
  "PropertyInfo_validate loc r =
     collect (collect (collect (collect (collect
       (Inr (\<lambda>a b c d e. \<lparr> property_age = a, construction_type = b, security_system = c,
                            fire_protection_class = d, flood_zone = e \<rparr>))
       (int_field (loc @ [''property_age'']) 0 None (raw_property_age r)))
       (required_field (loc @ [''construction_type'']) (raw_construction_type r)))
       (default_field (loc @ [''security_system'']) False (raw_security_system r)))
       (int_field (loc @ [''fire_protection_class'']) 1 (Some 10) (raw_fire_protection_class r)))
       (default_field (loc @ [''flood_zone'']) False (raw_flood_zone r))"

definition ApplicantData_fields :: "RawApplicantData \<Rightarrow> ApplicantData validated" where
  "ApplicantData_fields r =
     collect (collect (collect (collect (collect (collect (collect (collect (collect (collect
     (collect (collect (collect
       (Inr (\<lambda>a b c d e f g h i j k l m.
               \<lparr> applicant_id = a, name = b, age = c, credit_score = d, annual_income = e,
                 employment_status = f, insurance_type = g, coverage_amount = h,
                 claims_history = i, driving_record = j, property_info = k, smoker = l,
                 pre_existing_conditions = m \<rparr>))
       (str_field [''applicant_id''] 0 (raw_applicant_id r)))
       (str_field [''name''] 2 (raw_name r)))
       (int_field [''age''] 18 (Some 100) (raw_age r)))
       (int_field [''credit_score''] 300 (Some 850) (raw_credit_score r)))
       (float_field [''annual_income''] 0 (raw_annual_income r)))
       (required_field [''employment_status''] (raw_employment_status r)))
       (required_field [''insurance_type''] (raw_insurance_type r)))
       (float_field [''coverage_amount''] 0 (raw_coverage_amount r)))
       (required_model [''claims_history''] ClaimsHistory_validate (raw_claims_history r)))
       (optional_model [''driving_record''] DrivingRecord_validate (raw_driving_record r)))
       (optional_model [''property_info''] PropertyInfo_validate (raw_property_info r)))
       (optional_field [''smoker''] (raw_smoker r)))
       (optional_field [''pre_existing_conditions''] (raw_pre_existing_conditions r))"

text \<open>
  The \<^verbatim>\<open>mode='after'\<close> validator: the message of the \<^verbatim>\<open>ValueError\<close> it raises, if any.
\<close>

definition validate_type_specific_data :: "ApplicantData \<Rightarrow> string option" where
  "validate_type_specific_data self =
     (if insurance_type self = AUTO \<and> driving_record self = None
        then Some ''Driving record is required for auto insurance''
      else if insurance_type self = HOME \<and> property_info self = None
        then Some ''Property information is required for home insurance''
      else if insurance_type self \<in> set [HEALTH, LIFE] \<and> smoker self = None
        then Some (''Smoker status is required for '' @ InsuranceType_value (insurance_type self)
                   @ '' insurance'')
      else None)"

definition ApplicantData_init :: "RawApplicantData \<Rightarrow> ApplicantData validated" where
  "ApplicantData_init r =
     (case ApplicantData_fields r of
        Inl es \<Rightarrow> Inl es
      | Inr self \<Rightarrow>
          (case validate_type_specific_data self of
             Some msg \<Rightarrow> Inl [Value_error msg]
           | None \<Rightarrow> Inr self))"

text \<open>
  \<^verbatim>\<open>_run\<close> from the parsed record on: a validation failure is returned as the error
  message made from the \<^verbatim>\<open>ValidationError\<close>, and nothing else runs; otherwise the
  pipeline runs on the profile.
\<close>

definition run :: "RawApplicantData \<Rightarrow> simulation \<Rightarrow> simulation \<Rightarrow> MLResults
                     \<Rightarrow> violation list + DecisionResult" where
  "run r credit_sim dmv_sim ml_results =
     (case ApplicantData_init r of
        Inl es \<Rightarrow> Inl es
      | Inr applicant \<Rightarrow> Inr (underwrite applicant credit_sim dmv_sim ml_results))"

text \<open>
  The constraints of a raw record as the specification lists them: the constraints of
  the fields, and the requirement that goes with the insurance type. The first are the
  errors of the fields taken one by one; the second is read off the raw record.
\<close>

fun errors :: "'a validated \<Rightarrow> violation list" where
  "errors (Inl es) = es"
| "errors (Inr v) = []"

definition ClaimsHistory_violations :: "string list \<Rightarrow> RawClaimsHistory \<Rightarrow> violation list" where
  "ClaimsHistory_violations loc r =
     errors (int_field (loc @ [''total_claims'']) 0 None (raw_total_claims r))
     @ errors (int_field (loc @ [''claims_last_3_years'']) 0 None (raw_claims_last_3_years r))
     @ errors (float_field (loc @ [''total_claimed_amount'']) 0 (raw_total_claimed_amount r))
     @ errors (default_field (loc @ [''fraud_indicators'']) False (raw_fraud_indicators r))"

definition DrivingRecord_violations :: "string list \<Rightarrow> RawDrivingRecord \<Rightarrow> violation list" where
  "DrivingRecord_violations loc r =
     errors (int_field (loc @ [''years_licensed'']) 0 None (raw_years_licensed r))
     @ errors (int_field (loc @ [''accidents_last_5_years'']) 0 None (raw_accidents_last_5_years r))
     @ errors (int_field (loc @ [''violations_last_3_years'']) 0 None (raw_violations_last_3_years r))
     @ errors (default_field (loc @ [''dui_history'']) False (raw_dui_history r))
     @ errors (default_field (loc @ [''license_suspended'']) False (raw_license_suspended r))"

definition PropertyInfo_violations :: "string list \<Rightarrow> RawPropertyInfo \<Rightarrow> violation list" where
  "PropertyInfo_violations loc r =
     errors (int_field (loc @ [''property_age'']) 0 None (raw_property_age r))
     @ errors (required_field (loc @ [''construction_type'']) (raw_construction_type r))
     @ errors (default_field (loc @ [''security_system'']) False (raw_security_system r))
     @ errors (int_field (loc @ [''fire_protection_class'']) 1 (Some 10) (raw_fire_protection_class r))
     @ errors (default_field (loc @ [''flood_zone'']) False (raw_flood_zone r))"

fun nested_violations ::
  "bool \<Rightarrow> string list \<Rightarrow> (string list \<Rightarrow> 'r \<Rightarrow> violation list) \<Rightarrow> 'r raw \<Rightarrow> violation list" where
  "nested_violations required loc violations Missing =
     (if required then [Field_required loc] else [])"
| "nested_violations required loc violations Invalid = [Type_error loc]"
| "nested_violations required loc violations (Given r) = violations loc r"

definition field_violations :: "RawApplicantData \<Rightarrow> violation list" where
  "field_violations r =
     errors (str_field [''applicant_id''] 0 (raw_applicant_id r))
     @ errors (str_field [''name''] 2 (raw_name r))
     @ errors (int_field [''age''] 18 (Some 100) (raw_age r))
     @ errors (int_field [''credit_score''] 300 (Some 850) (raw_credit_score r))
     @ errors (float_field [''annual_income''] 0 (raw_annual_income r))
     @ errors (required_field [''employment_status''] (raw_employment_status r))
     @ errors (required_field [''insurance_type''] (raw_insurance_type r))
     @ errors (float_field [''coverage_amount''] 0 (raw_coverage_amount r))
     @ nested_violations True [''claims_history''] ClaimsHistory_violations (raw_claims_history r)
     @ nested_violations False [''driving_record''] DrivingRecord_violations (raw_driving_record r)
     @ nested_violations False [''property_info''] PropertyInfo_violations (raw_property_info r)
     @ errors (optional_field [''smoker''] (raw_smoker r))
     @ errors (optional_field [''pre_existing_conditions''] (raw_pre_existing_conditions r))"

definition type_requirement_violations :: "RawApplicantData \<Rightarrow> violation list" where
  "type_requirement_violations r =
     (case raw_insurance_type r of
        Given AUTO \<Rightarrow>
          (if raw_driving_record r = Missing
           then [Value_error ''Driving record is required for auto insurance''] else [])
      | Given HOME \<Rightarrow>
          (if raw_property_info r = Missing
           then [Value_error ''Property information is required for home insurance''] else [])
      | Given LIFE \<Rightarrow>
          (if raw_smoker r = Missing
           then [Value_error ''Smoker status is required for life insurance''] else [])
      | Given HEALTH \<Rightarrow>
          (if raw_smoker r = Missing
           then [Value_error ''Smoker status is required for health insurance''] else [])
      | _ \<Rightarrow> [])"

definition violated_constraints :: "RawApplicantData \<Rightarrow> violation list" where
  "violated_constraints r = field_violations r @ type_requirement_violations r"

text \<open>
  Raw records: the first example application, the same without its driving record, the
  same again with an age of 17, and one with six field errors.
\<close>

definition good_auto_raw :: RawApplicantData where
  "good_auto_raw =
     \<lparr> raw_applicant_id = Given ''APP-2025-001'', raw_name = Given ''John Smith'',
       raw_age = Given 35, raw_credit_score = Given 750, raw_annual_income = Given 75000,
       raw_employment_status = Given employed, raw_insurance_type = Given AUTO,
       raw_coverage_amount = Given 100000,
       raw_claims_history = Given \<lparr> raw_total_claims = Given 1,
         raw_claims_last_3_years = Given 0, raw_total_claimed_amount = Given 5000,
         raw_fraud_indicators = Given False \<rparr>,
       raw_driving_record = Given \<lparr> raw_years_licensed = Given 15,
         raw_accidents_last_5_years = Given 0, raw_violations_last_3_years = Given 1,
         raw_dui_history = Given False, raw_license_suspended = Given False \<rparr>,
       raw_property_info = Missing, raw_smoker = Missing,
       raw_pre_existing_conditions = Missing \<rparr>"

definition missing_driving_record_raw :: RawApplicantData where
  "missing_driving_record_raw = good_auto_raw \<lparr> raw_driving_record := Missing \<rparr>"

definition underage_no_driving_record_raw :: RawApplicantData where
  "underage_no_driving_record_raw =
     good_auto_raw \<lparr> raw_age := Given 17, raw_driving_record := Missing \<rparr>"

definition many_errors_raw :: RawApplicantData where
  "many_errors_raw =
     good_auto_raw \<lparr> raw_name := Given ''J'', raw_age := Given 17, raw_credit_score := Given 900,
       raw_annual_income := Missing,
       raw_claims_history := Given \<lparr> raw_total_claims = Given (-1),
         raw_claims_last_3_years = Invalid, raw_total_claimed_amount = Given 5000,
         raw_fraud_indicators = Missing \<rparr> \<rparr>"

section \<open>Evaluating the pipeline\<close>

lemmas rule_defs =
  rule1_credit_score_def rule2_fraud_def rule2_claims_def rule3_age_def
  rule4_type_specific_def rule5_coverage_def extend_with_def evaluate_auto_rules_def
  auto_dui_def auto_suspension_def auto_accidents_def auto_violations_def auto_experience_def
  evaluate_home_rules_def home_property_age_def home_construction_def home_security_def
  home_fire_def home_flood_def evaluate_health_rules_def health_smoker_def
  health_conditions_def no_type_rules_def initial_rule_vars_def verified_credit_score_def

lemmas sample_defs =
  good_auto_app_def high_risk_auto_def health_app_def fraud_app_def worst_auto_app_def
  borderline_app_def ml_bucket_def ml_unavailable_def

lemmas run_defs =
  sample_defs rule_defs verify_external_data_def evaluate_rules_def calculate_risk_score_def
  risk_components_def Let_def

text \<open>The rule engine and the risk score on the sample applications.\<close>

lemma sample_auto_decline:
  "auto_decline (evaluate_rules fraud_app (verify_external_data fraud_app (Drawn 5) (Drawn 0)))"
  "\<not> auto_decline (evaluate_rules good_auto_app (verify_external_data good_auto_app (Drawn 5) (Drawn 0)))"
  "\<not> auto_decline (evaluate_rules health_app (verify_external_data health_app (Drawn 5) (Drawn 0)))"
  "\<not> auto_decline (evaluate_rules high_risk_auto (verify_external_data high_risk_auto (Drawn 5) (Drawn 0)))"
  "\<not> auto_decline (evaluate_rules worst_auto_app (verify_external_data worst_auto_app (Drawn 0) (Drawn 0)))"
  by (simp_all add: run_defs)

lemma sample_scores:
  "calculate_risk_score fraud_app
     (evaluate_rules fraud_app (verify_external_data fraud_app (Drawn 5) (Drawn 0))) (ml_bucket 0) = 115 / 11"
  "calculate_risk_score good_auto_app
     (evaluate_rules good_auto_app (verify_external_data good_auto_app (Drawn 5) (Drawn 0))) (ml_bucket 0) = 60 / 11"
  "calculate_risk_score health_app
     (evaluate_rules health_app (verify_external_data health_app (Drawn 5) (Drawn 0))) (ml_bucket 2) = 376 / 11"
  "calculate_risk_score high_risk_auto
     (evaluate_rules high_risk_auto (verify_external_data high_risk_auto (Drawn 5) (Drawn 0))) (ml_bucket 0) = 624 / 11"
  "calculate_risk_score high_risk_auto
     (evaluate_rules high_risk_auto (verify_external_data high_risk_auto (Drawn 5) (Drawn 0))) (ml_bucket 2) = 789 / 11"
  "calculate_risk_score worst_auto_app
     (evaluate_rules worst_auto_app (verify_external_data worst_auto_app (Drawn 0) (Drawn 0))) (ml_bucket 2) = 950 / 11"
  by (simp_all add: run_defs)

section \<open>The decision policy\<close>

text \<open>
  Claim C1. Whatever the applicant, the risk score, the rule results, the classifier result
  and the external data handed to the decision composer: when the rule engine's
  \<^verbatim>\<open>auto_decline\<close> flag is set the decision is declined; otherwise a score below 30 gives
  risk level low and decision approved, a score in [30, 50) gives medium and approved, a
  score in [50, 70) gives high and approved with conditions, and a score of 70 or more
  gives very high, with decision declined above 85 and referred to manual review up to 85.
\<close>

theorem decision_policy:
  "(auto_decline rr \<longrightarrow> decision (make_decision a s rr ml ext) = DECLINED) \<and>
   (\<not> auto_decline rr \<longrightarrow>
      (s < 30 \<longrightarrow> risk_level (make_decision a s rr ml ext) = LOW
                 \<and> decision (make_decision a s rr ml ext) = APPROVED) \<and>
      (30 \<le> s \<and> s < 50 \<longrightarrow> risk_level (make_decision a s rr ml ext) = MEDIUM
                 \<and> decision (make_decision a s rr ml ext) = APPROVED) \<and>
      (50 \<le> s \<and> s < 70 \<longrightarrow> risk_level (make_decision a s rr ml ext) = HIGH
                 \<and> decision (make_decision a s rr ml ext) = APPROVED_WITH_CONDITIONS) \<and>
      (70 \<le> s \<longrightarrow> risk_level (make_decision a s rr ml ext) = VERY_HIGH) \<and>
      (70 \<le> s \<and> s > 85 \<longrightarrow> decision (make_decision a s rr ml ext) = DECLINED) \<and>
      (70 \<le> s \<and> s \<le> 85 \<longrightarrow> decision (make_decision a s rr ml ext) = REFER_TO_MANUAL_REVIEW))"
  by (simp add: make_decision_def classify_risk_def create_decline_decision_def Let_def)

text \<open>
  The policy applied to runs of the whole pipeline, one for each of its branches.
\<close>

theorem decision_policy_witness:
  "decision (underwrite fraud_app (Drawn 5) (Drawn 0) (ml_bucket 0)) = DECLINED \<and>
   decision (underwrite good_auto_app (Drawn 5) (Drawn 0) (ml_bucket 0)) = APPROVED \<and>
   risk_level (underwrite good_auto_app (Drawn 5) (Drawn 0) (ml_bucket 0)) = LOW \<and>
   decision (underwrite health_app (Drawn 5) (Drawn 0) (ml_bucket 2)) = APPROVED \<and>
   risk_level (underwrite health_app (Drawn 5) (Drawn 0) (ml_bucket 2)) = MEDIUM \<and>
   decision (underwrite high_risk_auto (Drawn 5) (Drawn 0) (ml_bucket 0)) = APPROVED_WITH_CONDITIONS \<and>
   risk_level (underwrite high_risk_auto (Drawn 5) (Drawn 0) (ml_bucket 0)) = HIGH \<and>
   decision (underwrite high_risk_auto (Drawn 5) (Drawn 0) (ml_bucket 2)) = REFER_TO_MANUAL_REVIEW \<and>
   risk_level (underwrite high_risk_auto (Drawn 5) (Drawn 0) (ml_bucket 2)) = VERY_HIGH \<and>
   decision (underwrite worst_auto_app (Drawn 0) (Drawn 0) (ml_bucket 2)) = DECLINED"
proof -
  let ?ext = "\<lambda>a c. verify_external_data a (Drawn c) (Drawn 0)"
  let ?rr = "\<lambda>a c. evaluate_rules a (?ext a c)"
  let ?s = "\<lambda>a c m. calculate_risk_score a (?rr a c) m"
  note p1 = decision_policy [where a = fraud_app and rr = "?rr fraud_app 5"
      and s = "?s fraud_app 5 (ml_bucket 0)" and ml = "ml_bucket 0" and ext = "?ext fraud_app 5"]
  note p2 = decision_policy [where a = good_auto_app and rr = "?rr good_auto_app 5"
      and s = "?s good_auto_app 5 (ml_bucket 0)" and ml = "ml_bucket 0" and ext = "?ext good_auto_app 5"]
  note p3 = decision_policy [where a = health_app and rr = "?rr health_app 5"
      and s = "?s health_app 5 (ml_bucket 2)" and ml = "ml_bucket 2" and ext = "?ext health_app 5"]
  note p4 = decision_policy [where a = high_risk_auto and rr = "?rr high_risk_auto 5"
      and s = "?s high_risk_auto 5 (ml_bucket 0)" and ml = "ml_bucket 0" and ext = "?ext high_risk_auto 5"]
  note p5 = decision_policy [where a = high_risk_auto and rr = "?rr high_risk_auto 5"
      and s = "?s high_risk_auto 5 (ml_bucket 2)" and ml = "ml_bucket 2" and ext = "?ext high_risk_auto 5"]
  note p6 = decision_policy [where a = worst_auto_app and rr = "?rr worst_auto_app 0"
      and s = "?s worst_auto_app 0 (ml_bucket 2)" and ml = "ml_bucket 2" and ext = "?ext worst_auto_app 0"]
  show ?thesis
    using p1 p2 p3 p4 p5 p6
    by (simp add: underwrite_def Let_def sample_auto_decline sample_scores)
qed


lemma make_decision_score: "risk_score (make_decision a s rr ml ext) = s"
  by (simp add: make_decision_def classify_risk_def create_decline_decision_def Let_def)

lemma sample_decisions:
  "decision (underwrite fraud_app (Drawn 5) (Drawn 0) (ml_bucket 0)) = DECLINED"
  "decision (underwrite good_auto_app (Drawn 5) (Drawn 0) (ml_bucket 0)) = APPROVED"
  "decision (underwrite high_risk_auto (Drawn 5) (Drawn 0) (ml_bucket 2)) = REFER_TO_MANUAL_REVIEW"
  "decision (underwrite worst_auto_app (Drawn 0) (Drawn 0) (ml_bucket 2)) = DECLINED"
  by (simp_all add: underwrite_def Let_def sample_auto_decline sample_scores make_decision_def
      classify_risk_def create_decline_decision_def)

lemma sample_external:
  "credit_verified (verify_external_data fraud_app (Drawn 5) (Drawn 0))"
  "external_sources (verify_external_data fraud_app (Drawn 5) (Drawn 0))
     = [''Experian (Simulated)'', ''DMV (Simulated)'']"
  "credit_verified (verify_external_data worst_auto_app (Drawn 0) (Drawn 0))"
  by (simp_all add: verify_external_data_def sample_defs Let_def)

section \<open>Fraud indicators\<close>

text \<open>Once set, the flag stays set: no later rule clears it.\<close>

lemma rule2_fraud_sets:
  "fraud_indicators (claims_history a) \<Longrightarrow> auto_decline (rule2_fraud a v)"
  by (simp add: rule2_fraud_def)

lemma rule2_claims_keeps: "auto_decline (rule2_claims a v) = auto_decline v"
  by (simp add: rule2_claims_def)

lemma rule3_age_keeps: "auto_decline (rule3_age a v) = auto_decline v"
  by (simp add: rule3_age_def)

lemma rule4_type_specific_keeps: "auto_decline v \<Longrightarrow> auto_decline (rule4_type_specific a v)"
  by (cases "insurance_type a") (simp_all add: rule4_type_specific_def extend_with_def Let_def)

lemma rule5_coverage_keeps: "auto_decline (rule5_coverage a v) = auto_decline v"
  by (simp add: rule5_coverage_def Let_def)

lemma evaluate_rules_fraud:
  "fraud_indicators (claims_history a) \<Longrightarrow> auto_decline (evaluate_rules a ext)"
  by (simp add: evaluate_rules_def Let_def rule5_coverage_keeps rule4_type_specific_keeps
      rule3_age_keeps rule2_claims_keeps rule2_fraud_sets)

text \<open>
  Claim C2. A profile whose claims history has \<^verbatim>\<open>fraud_indicators\<close> set is declined:
  by the decision composer on the rule engine's result for any external data, any risk
  score and any classifier result, and so by the whole pipeline, whatever the credit
  bureau and the registry simulations return.
\<close>

theorem fraud_declined:
  "fraud_indicators (claims_history a) \<Longrightarrow>
     decision (make_decision a s (evaluate_rules a ext) ml ext') = DECLINED \<and>
     decision (underwrite a credit_sim dmv_sim ml) = DECLINED"
  by (simp add: underwrite_def Let_def make_decision_def create_decline_decision_def
      evaluate_rules_fraud)

text \<open>A fraud-flagged application, with both verifications succeeding and with both failing.\<close>

theorem fraud_declined_witness:
  "fraud_indicators (claims_history fraud_app) \<and>
   decision (underwrite fraud_app (Drawn 5) (Drawn 0) (ml_bucket 0)) = DECLINED \<and>
   decision (underwrite fraud_app (Raised ''timeout'') (Raised ''timeout'') ml_unavailable) = DECLINED"
proof -
  have f: "fraud_indicators (claims_history fraud_app)"
    by (simp add: fraud_app_def good_auto_app_def)
  show ?thesis
    using f fraud_declined [OF f, where credit_sim = "Drawn 5" and dmv_sim = "Drawn 0" and ml = "ml_bucket 0"]
      fraud_declined [OF f, where credit_sim = "Raised ''timeout''" and dmv_sim = "Raised ''timeout''"
        and ml = ml_unavailable]
    by simp
qed

section \<open>The decision record\<close>

text \<open>
  Claim C3. When the decision is declined or referred to manual review, the decision
  record holds no premium information (\<^verbatim>\<open>premium_info\<close> is \<^verbatim>\<open>None\<close>, so no base,
  risk-adjusted, additional, monthly or annual premium is reported): for the decision
  composer on any inputs, and for the pipeline.
\<close>

theorem no_premium_when_declined_or_referred:
  "(decision (make_decision a s rr ml ext) = DECLINED
      \<or> decision (make_decision a s rr ml ext) = REFER_TO_MANUAL_REVIEW
    \<longrightarrow> premium_info (make_decision a s rr ml ext) = None) \<and>
   (decision (underwrite a credit_sim dmv_sim ml) = DECLINED
      \<or> decision (underwrite a credit_sim dmv_sim ml) = REFER_TO_MANUAL_REVIEW
    \<longrightarrow> premium_info (underwrite a credit_sim dmv_sim ml) = None)"
  by (simp add: underwrite_def make_decision_def classify_risk_def create_decline_decision_def
      Let_def)

text \<open>A declined fraud case, a referred case and a case declined for a score above 85.\<close>

theorem no_premium_when_declined_or_referred_witness:
  "decision (underwrite fraud_app (Drawn 5) (Drawn 0) (ml_bucket 0)) = DECLINED \<and>
   premium_info (underwrite fraud_app (Drawn 5) (Drawn 0) (ml_bucket 0)) = None \<and>
   decision (underwrite high_risk_auto (Drawn 5) (Drawn 0) (ml_bucket 2)) = REFER_TO_MANUAL_REVIEW \<and>
   premium_info (underwrite high_risk_auto (Drawn 5) (Drawn 0) (ml_bucket 2)) = None \<and>
   decision (underwrite worst_auto_app (Drawn 0) (Drawn 0) (ml_bucket 2)) = DECLINED \<and>
   premium_info (underwrite worst_auto_app (Drawn 0) (Drawn 0) (ml_bucket 2)) = None"
  using no_premium_when_declined_or_referred [where a = fraud_app and credit_sim = "Drawn 5"
      and dmv_sim = "Drawn 0" and ml = "ml_bucket 0"]
    no_premium_when_declined_or_referred [where a = high_risk_auto and credit_sim = "Drawn 5"
      and dmv_sim = "Drawn 0" and ml = "ml_bucket 2"]
    no_premium_when_declined_or_referred [where a = worst_auto_app and credit_sim = "Drawn 0"
      and dmv_sim = "Drawn 0" and ml = "ml_bucket 2"]
  by (simp add: sample_decisions)

text \<open>
  Claim C4. For every applicant profile, every rule-engine result and every classifier
  result, the risk score lies in the closed interval from 0 to 100; so does the score
  reported in the pipeline's decision record.
\<close>

theorem risk_score_in_range:
  "0 \<le> calculate_risk_score a rr ml \<and> calculate_risk_score a rr ml \<le> 100 \<and>
   0 \<le> risk_score (underwrite a credit_sim dmv_sim ml) \<and>
   risk_score (underwrite a credit_sim dmv_sim ml) \<le> 100"
proof -
  have "0 \<le> calculate_risk_score a' rr' ml' \<and> calculate_risk_score a' rr' ml' \<le> 100"
    for a' rr' ml'
    by (simp add: calculate_risk_score_def Let_def)
  then show ?thesis
    by (simp add: underwrite_def Let_def make_decision_score)
qed

text \<open>Classifier results far outside the three buckets are clamped as well.\<close>

theorem risk_score_in_range_witness:
  "0 \<le> risk_score (underwrite worst_auto_app (Drawn 0) (Drawn 0) (ml_bucket 40)) \<and>
   risk_score (underwrite worst_auto_app (Drawn 0) (Drawn 0) (ml_bucket 40)) \<le> 100 \<and>
   0 \<le> risk_score (underwrite good_auto_app (Drawn 5) (Drawn 0) (ml_bucket (-40))) \<and>
   risk_score (underwrite good_auto_app (Drawn 5) (Drawn 0) (ml_bucket (-40))) \<le> 100"
  using risk_score_in_range [where a = worst_auto_app and credit_sim = "Drawn 0"
      and dmv_sim = "Drawn 0" and ml = "ml_bucket 40"]
    risk_score_in_range [where a = good_auto_app and credit_sim = "Drawn 5"
      and dmv_sim = "Drawn 0" and ml = "ml_bucket (-40)"]
  by simp

text \<open>
  Claim C8. The \<^verbatim>\<open>approved\<close> flag of the decision record is true exactly when the
  decision is approved or approved with conditions, and false exactly when it is
  declined or referred to manual review.
\<close>

theorem approved_flag:
  "(approved (make_decision a s rr ml ext) \<longleftrightarrow>
      decision (make_decision a s rr ml ext) = APPROVED
      \<or> decision (make_decision a s rr ml ext) = APPROVED_WITH_CONDITIONS) \<and>
   (\<not> approved (make_decision a s rr ml ext) \<longleftrightarrow>
      decision (make_decision a s rr ml ext) = DECLINED
      \<or> decision (make_decision a s rr ml ext) = REFER_TO_MANUAL_REVIEW)"
  by (simp add: make_decision_def classify_risk_def create_decline_decision_def Let_def)

text \<open>An approved, a referred and a declined run of the pipeline.\<close>

theorem approved_flag_witness:
  "approved (underwrite good_auto_app (Drawn 5) (Drawn 0) (ml_bucket 0)) \<and>
   decision (underwrite good_auto_app (Drawn 5) (Drawn 0) (ml_bucket 0)) = APPROVED \<and>
   \<not> approved (underwrite high_risk_auto (Drawn 5) (Drawn 0) (ml_bucket 2)) \<and>
   decision (underwrite high_risk_auto (Drawn 5) (Drawn 0) (ml_bucket 2)) = REFER_TO_MANUAL_REVIEW \<and>
   \<not> approved (underwrite fraud_app (Drawn 5) (Drawn 0) (ml_bucket 0)) \<and>
   decision (underwrite fraud_app (Drawn 5) (Drawn 0) (ml_bucket 0)) = DECLINED"
proof -
  let ?ext = "\<lambda>a c. verify_external_data a (Drawn c) (Drawn 0)"
  let ?rr = "\<lambda>a c. evaluate_rules a (?ext a c)"
  let ?s = "\<lambda>a c m. calculate_risk_score a (?rr a c) m"
  note q1 = approved_flag [where a = good_auto_app and rr = "?rr good_auto_app 5"
      and s = "?s good_auto_app 5 (ml_bucket 0)" and ml = "ml_bucket 0" and ext = "?ext good_auto_app 5"]
  note q2 = approved_flag [where a = high_risk_auto and rr = "?rr high_risk_auto 5"
      and s = "?s high_risk_auto 5 (ml_bucket 2)" and ml = "ml_bucket 2" and ext = "?ext high_risk_auto 5"]
  note q3 = approved_flag [where a = fraud_app and rr = "?rr fraud_app 5"
      and s = "?s fraud_app 5 (ml_bucket 0)" and ml = "ml_bucket 0" and ext = "?ext fraud_app 5"]
  have d: "decision (make_decision good_auto_app (?s good_auto_app 5 (ml_bucket 0)) (?rr good_auto_app 5)
              (ml_bucket 0) (?ext good_auto_app 5)) = APPROVED"
    "decision (make_decision high_risk_auto (?s high_risk_auto 5 (ml_bucket 2)) (?rr high_risk_auto 5)
              (ml_bucket 2) (?ext high_risk_auto 5)) = REFER_TO_MANUAL_REVIEW"
    "decision (make_decision fraud_app (?s fraud_app 5 (ml_bucket 0)) (?rr fraud_app 5)
              (ml_bucket 0) (?ext fraud_app 5)) = DECLINED"
    using sample_decisions by (simp_all add: underwrite_def Let_def)
  show ?thesis
    using q1 q2 q3 d by (simp add: underwrite_def Let_def)
qed

text \<open>
  Claim C9. A profile declined through the \<^verbatim>\<open>auto_decline\<close> flag or through a score above
  85 gets a record with risk level very high, \<^verbatim>\<open>credit_verified\<close> false and no external
  sources, whatever the score is and whatever the external data say; the score itself is
  reported unchanged.
\<close>

theorem decline_record:
  "auto_decline rr \<or> s > 85 \<Longrightarrow>
     decision (make_decision a s rr ml ext) = DECLINED \<and>
     risk_level (make_decision a s rr ml ext) = VERY_HIGH \<and>
     risk_score (make_decision a s rr ml ext) = s \<and>
     \<not> result_credit_verified (make_decision a s rr ml ext) \<and>
     result_external_sources (make_decision a s rr ml ext) = []"
  by (auto simp add: make_decision_def classify_risk_def create_decline_decision_def Let_def)

text \<open>
  A fraud case whose credit verification succeeded and whose score of about 10.5 is in
  the low band, and a case declined for its score of about 86.4.
\<close>

theorem decline_record_witness:
  "auto_decline (evaluate_rules fraud_app (verify_external_data fraud_app (Drawn 5) (Drawn 0))) \<and>
   credit_verified (verify_external_data fraud_app (Drawn 5) (Drawn 0)) \<and>
   external_sources (verify_external_data fraud_app (Drawn 5) (Drawn 0)) \<noteq> [] \<and>
   risk_score (underwrite fraud_app (Drawn 5) (Drawn 0) (ml_bucket 0)) = 115 / 11 \<and>
   decision (underwrite fraud_app (Drawn 5) (Drawn 0) (ml_bucket 0)) = DECLINED \<and>
   risk_level (underwrite fraud_app (Drawn 5) (Drawn 0) (ml_bucket 0)) = VERY_HIGH \<and>
   \<not> result_credit_verified (underwrite fraud_app (Drawn 5) (Drawn 0) (ml_bucket 0)) \<and>
   result_external_sources (underwrite fraud_app (Drawn 5) (Drawn 0) (ml_bucket 0)) = [] \<and>
   \<not> auto_decline (evaluate_rules worst_auto_app (verify_external_data worst_auto_app (Drawn 0) (Drawn 0))) \<and>
   credit_verified (verify_external_data worst_auto_app (Drawn 0) (Drawn 0)) \<and>
   risk_score (underwrite worst_auto_app (Drawn 0) (Drawn 0) (ml_bucket 2)) = 950 / 11 \<and>
   decision (underwrite worst_auto_app (Drawn 0) (Drawn 0) (ml_bucket 2)) = DECLINED \<and>
   risk_level (underwrite worst_auto_app (Drawn 0) (Drawn 0) (ml_bucket 2)) = VERY_HIGH \<and>
   \<not> result_credit_verified (underwrite worst_auto_app (Drawn 0) (Drawn 0) (ml_bucket 2)) \<and>
   result_external_sources (underwrite worst_auto_app (Drawn 0) (Drawn 0) (ml_bucket 2)) = []"
proof -
  let ?ext = "\<lambda>a c. verify_external_data a (Drawn c) (Drawn 0)"
  let ?rr = "\<lambda>a c. evaluate_rules a (?ext a c)"
  let ?s = "\<lambda>a c m. calculate_risk_score a (?rr a c) m"
  have h1: "auto_decline (?rr fraud_app 5) \<or> ?s fraud_app 5 (ml_bucket 0) > 85"
    by (simp add: sample_auto_decline)
  have h2: "auto_decline (?rr worst_auto_app 0) \<or> ?s worst_auto_app 0 (ml_bucket 2) > 85"
    by (simp add: sample_scores)
  show ?thesis
    using decline_record [OF h1, where a = fraud_app and ml = "ml_bucket 0" and ext = "?ext fraud_app 5"]
      decline_record [OF h2, where a = worst_auto_app and ml = "ml_bucket 2" and ext = "?ext worst_auto_app 0"]
    by (simp add: underwrite_def Let_def sample_auto_decline sample_scores sample_external)
qed

section \<open>The credit component\<close>

text \<open>
  Claim C10. The credit component of the risk score is computed from the self-reported
  credit score alone: two evaluations of one applicant under different external data have
  the same credit component, given by the formula on \<^verbatim>\<open>applicant.credit_score\<close>. The
  verified score does feed the rule engine: for a reported score of 560, a verified score
  of 545 sets \<^verbatim>\<open>auto_decline\<close> and a verified score of 575 does not.
\<close>

theorem credit_component_self_reported:
  "credit_component (risk_components a (evaluate_rules a ext_a) ml)
     = credit_component (risk_components a (evaluate_rules a ext_b) ml) \<and>
   credit_component (risk_components a rr ml)
     = max 0 (30 - of_int (credit_score a - 300) / 550 * 30) \<and>
   verified_credit_score borderline_app (verify_external_data borderline_app (Drawn (-15)) dmv_sim) = 545 \<and>
   verified_credit_score borderline_app (verify_external_data borderline_app (Drawn 15) dmv_sim) = 575 \<and>
   auto_decline (evaluate_rules borderline_app
                   (verify_external_data borderline_app (Drawn (-15)) dmv_sim)) \<and>
   \<not> auto_decline (evaluate_rules borderline_app
                     (verify_external_data borderline_app (Drawn 15) dmv_sim))"
  apply (intro conjI)
  apply (simp add: risk_components_def)
  apply (simp add: risk_components_def)
  apply (simp_all add: run_defs)
  done

text \<open>The two evaluations of the applicant with the reported score 560.\<close>

theorem credit_component_self_reported_witness:
  "credit_component (risk_components borderline_app
      (evaluate_rules borderline_app (verify_external_data borderline_app (Drawn (-15)) (Drawn 0)))
      (ml_bucket 1)) = 174 / 11 \<and>
   credit_component (risk_components borderline_app
      (evaluate_rules borderline_app (verify_external_data borderline_app (Drawn 15) (Drawn 0)))
      (ml_bucket 1)) = 174 / 11 \<and>
   auto_decline (evaluate_rules borderline_app
                   (verify_external_data borderline_app (Drawn (-15)) (Drawn 0))) \<and>
   \<not> auto_decline (evaluate_rules borderline_app
                     (verify_external_data borderline_app (Drawn 15) (Drawn 0)))"
proof -
  have c: "credit_score borderline_app = 560"
    by (simp add: borderline_app_def high_risk_auto_def)
  show ?thesis
    using credit_component_self_reported [where a = borderline_app and ml = "ml_bucket 1"
        and dmv_sim = "Drawn 0"
        and ext_a = "verify_external_data borderline_app (Drawn (-15)) (Drawn 0)"
        and ext_b = "verify_external_data borderline_app (Drawn 15) (Drawn 0)"
        and rr = "evaluate_rules borderline_app (verify_external_data borderline_app (Drawn 15) (Drawn 0))"]
    by (simp add: c)
qed

lemmas string_defs = lower_def char_lower_def

section \<open>Credit verification\<close>

text \<open>
  Claim C5. For a reported score between 300 and 850 and a variance in the range the
  simulation draws from, the successful result is verified, and its actual score is within
  20 of the reported score and between 300 and 850. When the call fails inside, the
  function still returns a result: not verified, with no actual score, the error message
  and the note \<^verbatim>\<open>Using self-reported score\<close>; the score the rule engine then works with
  is the reported one.
\<close>

theorem verify_credit_score_bounded:
  "(300 \<le> r \<and> r \<le> 850 \<and> credit_variance_range v \<longrightarrow>
      cd_verified (verify_credit_score i r (Drawn v)) \<and>
      (\<exists>actual. cd_actual_score (verify_credit_score i r (Drawn v)) = Some actual
         \<and> \<bar>actual - r\<bar> \<le> 20 \<and> 300 \<le> actual \<and> actual \<le> 850)) \<and>
   \<not> cd_verified (verify_credit_score i r (Raised e)) \<and>
   cd_actual_score (verify_credit_score i r (Raised e)) = None \<and>
   cd_error (verify_credit_score i r (Raised e)) = Some e \<and>
   cd_fallback (verify_credit_score i r (Raised e)) = Some ''Using self-reported score'' \<and>
   verified_credit_score a (verify_external_data a (Raised e) dmv_sim) = credit_score a"
  by (auto simp add: credit_variance_range_def Let_def verified_credit_score_def
      verify_external_data_def)

text \<open>Both ends of the clamp, and a failed call.\<close>

theorem verify_credit_score_bounded_witness:
  "(300::int) \<le> 845 \<and> (845::int) \<le> 850 \<and> credit_variance_range 19 \<and>
   cd_verified (verify_credit_score ''APP-2025-001'' 845 (Drawn 19)) \<and>
   cd_actual_score (verify_credit_score ''APP-2025-001'' 845 (Drawn 19)) = Some 850 \<and>
   credit_variance_range (-20) \<and>
   cd_actual_score (verify_credit_score ''APP-2025-001'' 310 (Drawn (-20))) = Some 300 \<and>
   \<not> cd_verified (verify_credit_score ''APP-2025-001'' 845 (Raised ''timeout'')) \<and>
   verified_credit_score good_auto_app
     (verify_external_data good_auto_app (Raised ''timeout'') (Drawn 0)) = 750"
  using verify_credit_score_bounded [where r = 845 and v = 19 and i = "''APP-2025-001''"
      and e = "''timeout''" and a = good_auto_app and dmv_sim = "Drawn 0"]
    verify_credit_score_bounded [where r = 310 and v = "-20" and i = "''APP-2025-001''"
      and e = "''timeout''" and a = good_auto_app and dmv_sim = "Drawn 0"]
  by (simp add: credit_variance_range_def good_auto_app_def)

section \<open>Surcharges\<close>

lemma credit_and_claims_matches:
  "\<not> in_dui_fraud credit_and_claims"
  "in_accident_claims credit_and_claims"
  "in_credit credit_and_claims"
  by (simp_all add: in_dui_fraud_def in_accident_claims_def in_credit_def credit_and_claims_def
      string_defs)

text \<open>
  Claim C7, as stated, fails. The factor \<^verbatim>\<open>Poor credit and frequent claims\<close> matches the
  claims and the credit keywords; the loop adds 20 per cent of the base for it and not
  20 plus 15 per cent.
\<close>

theorem credit_and_claims_charged_once:
  "str_in ''credit'' (lower credit_and_claims) \<and>
   str_in ''claims'' (lower credit_and_claims) \<and>
   surcharge_loop 150 [credit_and_claims] = 150 * (1 / 5) \<and>
   surcharge_loop 150 [credit_and_claims] \<noteq> 150 * (1 / 5) + 150 * (3 / 20) \<and>
   additional_premium (calculate_premium good_auto_app 10 [credit_and_claims]) = 30"
  by (simp add: surcharge_loop_def surcharge_step_def calculate_premium_def BASE_PREMIUMS_def
      good_auto_app_def credit_and_claims_def string_defs round2_def round_half_even_def Let_def)

lemma surcharge_step_acc: "surcharge_step base acc factor = acc + surcharge_step base 0 factor"
  by (simp add: surcharge_step_def)

lemma surcharge_foldl:
  "foldl (surcharge_step base) acc factors
     = acc + sum_list (map (surcharge_step base 0) factors)"
proof (induction factors arbitrary: acc)
  case Nil
  show ?case by simp
next
  case (Cons f fs)
  show ?case
    using Cons.IH [of "surcharge_step base acc f"] surcharge_step_acc [of base acc f]
    by simp
qed

text \<open>
  Claim C7, amended. The additional premium is the sum, over the risk factors, of one
  surcharge each: that of the first category the factor matches in the order DUI or
  fraud (50 per cent of the base), accident or claims (20 per cent), credit (15 per
  cent), and nothing if it matches none. For a positive base, a factor matching two or
  more categories is charged strictly less than the sum of their surcharges.
\<close>

theorem one_surcharge_per_factor:
  "surcharge_loop base factors = sum_list (map (surcharge_step base 0) factors) \<and>
   surcharge_step base 0 factor =
     (if in_dui_fraud factor then base * (1 / 2)
      else if in_accident_claims factor then base * (1 / 5)
      else if in_credit factor then base * (3 / 20)
      else 0) \<and>
   (0 < base \<and> 2 \<le> categories_matched factor \<longrightarrow>
      surcharge_step base 0 factor < double_counted_surcharge base factor)"
proof (intro conjI)
  show "surcharge_loop base factors = sum_list (map (surcharge_step base 0) factors)"
    by (simp add: surcharge_loop_def surcharge_foldl)
  show "surcharge_step base 0 factor =
     (if in_dui_fraud factor then base * (1 / 2)
      else if in_accident_claims factor then base * (1 / 5)
      else if in_credit factor then base * (3 / 20)
      else 0)"
    by (simp add: surcharge_step_def in_dui_fraud_def in_accident_claims_def in_credit_def)
  show "0 < base \<and> 2 \<le> categories_matched factor \<longrightarrow>
      surcharge_step base 0 factor < double_counted_surcharge base factor"
    by (auto simp add: surcharge_step_def in_dui_fraud_def in_accident_claims_def in_credit_def
        categories_matched_def double_counted_surcharge_def)
qed

text \<open>The factor matching two categories, alone and in a list of three factors.\<close>

theorem one_surcharge_per_factor_witness:
  "(0::rat) < 150 \<and> 2 \<le> categories_matched credit_and_claims \<and>
   surcharge_step 150 0 credit_and_claims = 30 \<and>
   double_counted_surcharge 150 credit_and_claims = 105 / 2 \<and>
   surcharge_loop 150 [''Low credit score'', credit_and_claims, ''DUI history''] = 255 / 2"
proof -
  have c: "categories_matched credit_and_claims = 2"
    by (simp add: categories_matched_def credit_and_claims_matches)
  have d: "double_counted_surcharge 150 credit_and_claims = 105 / 2"
    by (simp add: double_counted_surcharge_def credit_and_claims_matches)
  have s: "surcharge_step 150 0 ''Low credit score'' = 45 / 2"
     "surcharge_step 150 0 ''DUI history'' = 75"
    by (simp_all add: surcharge_step_def string_defs)
  show ?thesis
    using one_surcharge_per_factor [where base = 150 and factor = credit_and_claims
        and factors = "[''Low credit score'', credit_and_claims, ''DUI history'']"]
    by (simp add: c d s credit_and_claims_matches)
qed


section \<open>Validation\<close>

text \<open>Collecting keeps the errors of every field, and never fails with no error.\<close>

lemma errors_collect: "errors (collect f x) = errors f @ errors x"
  by (cases f; cases x) simp_all

lemma collect_Inr: "collect f x = Inr v \<longleftrightarrow> (\<exists>g y. f = Inr g \<and> x = Inr y \<and> v = g y)"
  by (cases f; cases x) auto

lemma collect_not_empty: "f \<noteq> Inl [] \<Longrightarrow> x \<noteq> Inl [] \<Longrightarrow> collect f x \<noteq> Inl []"
  by (cases f; cases x) simp_all

lemma int_field_not_empty: "int_field loc ge le x \<noteq> Inl []"
  by (cases x) (simp_all split: option.splits)

lemma float_field_not_empty: "float_field loc ge x \<noteq> Inl []"
  by (cases x) simp_all

lemma str_field_not_empty: "str_field loc n x \<noteq> Inl []"
  by (cases x) simp_all

lemma required_field_not_empty: "required_field loc x \<noteq> Inl []"
  by (cases x) simp_all

lemma default_field_not_empty: "default_field loc d x \<noteq> Inl []"
  by (cases x) simp_all

lemma optional_field_not_empty: "optional_field loc x \<noteq> Inl []"
  by (cases x) simp_all

lemmas field_not_empty =
  int_field_not_empty float_field_not_empty str_field_not_empty required_field_not_empty
  default_field_not_empty optional_field_not_empty

lemma ClaimsHistory_not_empty: "ClaimsHistory_validate loc r \<noteq> Inl []"
  unfolding ClaimsHistory_validate_def
  by (intro collect_not_empty field_not_empty) simp

lemma DrivingRecord_not_empty: "DrivingRecord_validate loc r \<noteq> Inl []"
  unfolding DrivingRecord_validate_def
  by (intro collect_not_empty field_not_empty) simp

lemma PropertyInfo_not_empty: "PropertyInfo_validate loc r \<noteq> Inl []"
  unfolding PropertyInfo_validate_def
  by (intro collect_not_empty field_not_empty) simp

lemma required_model_not_empty:
  "(\<And>l r. validate l r \<noteq> Inl []) \<Longrightarrow> required_model loc validate x \<noteq> Inl []"
  by (cases x) simp_all

lemma optional_model_not_empty:
  "(\<And>l r. validate l r \<noteq> Inl []) \<Longrightarrow> optional_model loc validate x \<noteq> Inl []"
  by (cases x) (auto split: sum.splits)

lemma ApplicantData_fields_not_empty: "ApplicantData_fields r \<noteq> Inl []"
  unfolding ApplicantData_fields_def
  by (intro collect_not_empty field_not_empty required_model_not_empty optional_model_not_empty
      ClaimsHistory_not_empty DrivingRecord_not_empty PropertyInfo_not_empty) simp

lemma errors_ClaimsHistory:
  "errors (ClaimsHistory_validate loc r) = ClaimsHistory_violations loc r"
  by (simp add: ClaimsHistory_validate_def ClaimsHistory_violations_def errors_collect)

lemma errors_DrivingRecord:
  "errors (DrivingRecord_validate loc r) = DrivingRecord_violations loc r"
  by (simp add: DrivingRecord_validate_def DrivingRecord_violations_def errors_collect)

lemma errors_PropertyInfo:
  "errors (PropertyInfo_validate loc r) = PropertyInfo_violations loc r"
  by (simp add: PropertyInfo_validate_def PropertyInfo_violations_def errors_collect)

lemma errors_required_model:
  "(\<And>l r. errors (validate l r) = violations l r) \<Longrightarrow>
     errors (required_model loc validate x) = nested_violations True loc violations x"
  by (cases x) simp_all

lemma errors_optional_model:
  "(\<And>l r. errors (validate l r) = violations l r) \<Longrightarrow>
     errors (optional_model loc validate x) = nested_violations False loc violations x"
proof (cases x)
  case (Given r)
  assume h: "\<And>l r. errors (validate l r) = violations l r"
  show ?thesis
    using h [of loc r] Given by (cases "validate loc r") simp_all
qed simp_all

lemma errors_ApplicantData_fields: "errors (ApplicantData_fields r) = field_violations r"
  by (simp add: ApplicantData_fields_def field_violations_def errors_collect
      errors_required_model [where violations = ClaimsHistory_violations, OF errors_ClaimsHistory]
      errors_optional_model [where violations = DrivingRecord_violations, OF errors_DrivingRecord]
      errors_optional_model [where violations = PropertyInfo_violations, OF errors_PropertyInfo])

lemma fields_failure:
  "ApplicantData_fields r = Inl es \<Longrightarrow> es = field_violations r \<and> field_violations r \<noteq> []"
  using errors_ApplicantData_fields [of r] ApplicantData_fields_not_empty [of r] by auto

lemma fields_success: "ApplicantData_fields r = Inr a \<Longrightarrow> field_violations r = []"
  using errors_ApplicantData_fields [of r] by simp

lemma fields_cases:
  "(field_violations r \<noteq> [] \<and> ApplicantData_fields r = Inl (field_violations r)) \<or>
   (field_violations r = [] \<and> (\<exists>a. ApplicantData_fields r = Inr a))"
  using fields_failure [of r] fields_success [of r] by (cases "ApplicantData_fields r") auto

lemma optional_field_Inr: "optional_field loc x = Inr v \<Longrightarrow> (v = None) = (x = Missing)"
  by (cases x) auto

lemma optional_model_Inr: "optional_model loc validate x = Inr v \<Longrightarrow> (v = None) = (x = Missing)"
  by (cases x) (auto split: sum.splits)

lemma required_field_Inr: "required_field loc x = Inr v \<Longrightarrow> x = Given v"
  by (cases x) auto

lemma fields_built:
  assumes "ApplicantData_fields r = Inr a"
  shows "raw_insurance_type r = Given (insurance_type a)"
    and "(driving_record a = None) = (raw_driving_record r = Missing)"
    and "(property_info a = None) = (raw_property_info r = Missing)"
    and "(smoker a = None) = (raw_smoker r = Missing)"
  using assms unfolding ApplicantData_fields_def collect_Inr
  by (auto dest: optional_field_Inr optional_model_Inr required_field_Inr)

lemma type_requirement_built:
  assumes "ApplicantData_fields r = Inr a"
  shows "type_requirement_violations r =
           (case validate_type_specific_data a of None \<Rightarrow> [] | Some msg \<Rightarrow> [Value_error msg])"
  using fields_built [OF assms]
  by (cases "insurance_type a")
     (simp_all add: type_requirement_violations_def validate_type_specific_data_def)

lemmas raw_defs =
  good_auto_raw_def missing_driving_record_raw_def underage_no_driving_record_raw_def
  many_errors_raw_def

lemmas validate_defs =
  ApplicantData_init_def ApplicantData_fields_def ClaimsHistory_validate_def
  DrivingRecord_validate_def PropertyInfo_validate_def validate_type_specific_data_def

lemmas violation_defs =
  violated_constraints_def field_violations_def type_requirement_violations_def
  ClaimsHistory_violations_def DrivingRecord_violations_def PropertyInfo_violations_def

lemma sample_violations:
  "field_violations underage_no_driving_record_raw = [Greater_than_equal [''age''] 18]"
  "type_requirement_violations underage_no_driving_record_raw
     = [Value_error ''Driving record is required for auto insurance'']"
  "field_violations missing_driving_record_raw = []"
  "type_requirement_violations missing_driving_record_raw
     = [Value_error ''Driving record is required for auto insurance'']"
  "field_violations many_errors_raw =
     [String_too_short [''name''] 2, Greater_than_equal [''age''] 18,
      Less_than_equal [''credit_score''] 850, Field_required [''annual_income''],
      Greater_than_equal [''claims_history'', ''total_claims''] 0,
      Type_error [''claims_history'', ''claims_last_3_years'']]"
  "field_violations good_auto_raw = []"
  "type_requirement_violations good_auto_raw = []"
  by (simp_all add: raw_defs violation_defs)

text \<open>
  Claim C6, as stated, fails. An auto application with an age of 17 and no driving record
  violates two constraints; the validation result lists the age only, since the check for
  the driving record runs after the fields and only when all of them are valid.
\<close>

theorem validation_skips_type_requirement:
  "ApplicantData_init underage_no_driving_record_raw = Inl [Greater_than_equal [''age''] 18] \<and>
   violated_constraints underage_no_driving_record_raw =
     [Greater_than_equal [''age''] 18,
      Value_error ''Driving record is required for auto insurance''] \<and>
   Value_error ''Driving record is required for auto insurance''
     \<notin> set [Greater_than_equal [''age''] 18]"
  by (simp add: raw_defs validate_defs violation_defs)

text \<open>
  Claim C6, amended. For every raw record that violates a constraint, validation fails,
  no profile is produced and the pipeline does not run. If field constraints are
  violated, the result lists every violated field constraint, nested ones included, and
  nothing else; the requirement of the insurance type (driving record for auto, property
  information for home, smoker flag for health and life) is reported, alone, only when
  all field constraints hold. A record that violates nothing yields a profile, and a
  profile is produced for no other record.
\<close>

theorem validation_reports:
  "(violated_constraints r \<noteq> [] \<longrightarrow>
      ApplicantData_init r =
        Inl (if field_violations r \<noteq> [] then field_violations r
             else type_requirement_violations r) \<and>
      run r credit_sim dmv_sim ml = 
        Inl (if field_violations r \<noteq> [] then field_violations r
             else type_requirement_violations r)) \<and>
   (violated_constraints r = [] \<longrightarrow> (\<exists>a. ApplicantData_init r = Inr a)) \<and>
   (ApplicantData_init r = Inr a \<longrightarrow> violated_constraints r = [])"
proof -
  consider (bad) "field_violations r \<noteq> []" "ApplicantData_fields r = Inl (field_violations r)"
    | (ok) b where "field_violations r = []" "ApplicantData_fields r = Inr b"
    using fields_cases [of r] by auto
  then show ?thesis
  proof cases
    case bad
    then show ?thesis
      by (simp add: ApplicantData_init_def run_def violated_constraints_def)
  next
    case ok
    show ?thesis
      using ok type_requirement_built [OF ok(2)]
      by (cases "validate_type_specific_data b")
         (auto simp add: ApplicantData_init_def run_def violated_constraints_def)
  qed
qed

text \<open>
  A record with six field errors, a record missing only its driving record, and a valid
  record.
\<close>

theorem validation_reports_witness:
  "violated_constraints many_errors_raw \<noteq> [] \<and>
   ApplicantData_init many_errors_raw =
     Inl [String_too_short [''name''] 2, Greater_than_equal [''age''] 18,
          Less_than_equal [''credit_score''] 850, Field_required [''annual_income''],
          Greater_than_equal [''claims_history'', ''total_claims''] 0,
          Type_error [''claims_history'', ''claims_last_3_years'']] \<and>
   violated_constraints missing_driving_record_raw \<noteq> [] \<and>
   run missing_driving_record_raw (Drawn 5) (Drawn 0) (ml_bucket 0) =
     Inl [Value_error ''Driving record is required for auto insurance''] \<and>
   violated_constraints good_auto_raw = [] \<and>
   (\<exists>a. ApplicantData_init good_auto_raw = Inr a)"
  using validation_reports [where r = many_errors_raw and credit_sim = "Drawn 5"
      and dmv_sim = "Drawn 0" and ml = "ml_bucket 0"]
    validation_reports [where r = missing_driving_record_raw and credit_sim = "Drawn 5"
      and dmv_sim = "Drawn 0" and ml = "ml_bucket 0"]
    validation_reports [where r = good_auto_raw and credit_sim = "Drawn 5"
      and dmv_sim = "Drawn 0" and ml = "ml_bucket 0"]
  by (simp add: violated_constraints_def sample_violations)

end
